theory Spec2Isabelle
  imports Main
begin

section \<open>Errors\<close>

text \<open>
  Go error values as the command sees them. \<open>errValueEmpty\<close> is the package's sentinel,
  compared with \<open>!=\<close>; \<open>ErrProjectAlreadyExists\<close> and \<open>ErrStackAlreadyExists\<close> are the
  two error types the command looks for with \<open>errors.As\<close>; \<open>ErrOther\<close> is any other
  error, by its message. \<open>Errorf_w fmt e\<close> is \<open>fmt.Errorf(fmt + "%w", e)\<close>, which keeps
  \<open>e\<close> in its unwrap chain; \<open>Errorf_v fmt e\<close> is \<open>fmt.Errorf(fmt + "%v", e)\<close>, a new
  error that only prints \<open>e\<close>. A nil error is \<open>None\<close>.
\<close>

datatype error =
    errValueEmpty
  | ErrProjectAlreadyExists string
  | ErrStackAlreadyExists string
  | ErrOther string
  | Errorf_w string error
  | Errorf_v string error

text \<open>\<open>errors.As\<close> walks the unwrap chain until an error of the target type is found.\<close>

fun chain_has_ErrProjectAlreadyExists :: "error \<Rightarrow> bool" where
  "chain_has_ErrProjectAlreadyExists (ErrProjectAlreadyExists _) = True"
| "chain_has_ErrProjectAlreadyExists (Errorf_w _ e) = chain_has_ErrProjectAlreadyExists e"
| "chain_has_ErrProjectAlreadyExists _ = False"

fun chain_has_ErrStackAlreadyExists :: "error \<Rightarrow> bool" where
  "chain_has_ErrStackAlreadyExists (ErrStackAlreadyExists _) = True"
| "chain_has_ErrStackAlreadyExists (Errorf_w _ e) = chain_has_ErrStackAlreadyExists e"
| "chain_has_ErrStackAlreadyExists _ = False"

definition errors_As_ErrProjectAlreadyExists :: "error option \<Rightarrow> bool" where
  "errors_As_ErrProjectAlreadyExists err =
     (case err of None \<Rightarrow> False | Some e \<Rightarrow> chain_has_ErrProjectAlreadyExists e)"

definition errors_As_ErrStackAlreadyExists :: "error option \<Rightarrow> bool" where
  "errors_As_ErrStackAlreadyExists err =
     (case err of None \<Rightarrow> False | Some e \<Rightarrow> chain_has_ErrStackAlreadyExists e)"

section \<open>Data\<close>

type_synonym bytes = string

record archer_Project =
  proj_Name :: string

record archer_Environment =
  env_Project :: string
  env_Name :: string
  env_PublicLoadBalancer :: bool

record archer_WorkspaceSummary =
  ProjectName :: string

definition defaultEnvironmentName :: string where
  "defaultEnvironmentName = ''test''"

text \<open>
  The exported and staged fields of \<open>InitAppOpts\<close>. Its interface-typed fields
  (\<open>projStore\<close>, \<open>envStore\<close>, \<open>envDeployer\<close>, \<open>ws\<close>, \<open>prog\<close>, \<open>prompter\<close>) are set once
  by \<open>BuildInitCmd\<close> and never reassigned; they are the record \<open>deps\<close> below.
\<close>

record InitAppOpts =
  Project :: string
  AppName :: string
  AppType :: string
  ShouldDeploy :: bool
  ShouldSkipDeploy :: bool
  existingProjects :: "string list"

section \<open>Collaborators\<close>

text \<open>
  Every call on a collaborator is recorded with its arguments and with what it returned.
  A Go function returning \<open>(T, error)\<close> returns a pair here: the command reads the first
  component of some of these calls whatever the error is.

  \<open>deployEnv\<close> builds one \<open>archer.Environment\<close> and hands the same pointer to
  \<open>DeployEnvironment\<close>, \<open>WaitForEnvironmentCreation\<close> and \<open>CreateEnvironment\<close>, so each
  of them can write to the object the later ones read. Their events record the object as
  the call received it, the error returned, and the object as the call left it.
\<close>

datatype event =
    Call_ws_Summary "archer_WorkspaceSummary \<times> error option"
  | Call_ws_Create string "error option"
  | Call_ws_WriteManifest bytes string "error option"
  | Call_projStore_ListProjects "archer_Project list \<times> error option"
  | Call_projStore_CreateProject archer_Project "error option"
  | Call_envStore_ListEnvironments string "archer_Environment list \<times> error option"
  | Call_envStore_CreateEnvironment archer_Environment "error option" archer_Environment
  | Call_envDeployer_DeployEnvironment archer_Environment "error option" archer_Environment
  | Call_envDeployer_WaitForEnvironmentCreation archer_Environment "error option"
      archer_Environment
  | Call_prompter_Get string string "string \<times> error option"
  | Call_prompter_SelectOne string string "string list" "string \<times> error option"
  | Call_prompter_Confirm string string "bool \<times> error option"
  | Call_prog_Start string
  | Call_prog_Stop string
  | Call_fmt_Printf string

text \<open>
  The collaborators are interfaces whose implementations lie outside this file of the
  command, so they are parameters: each operation takes the state \<open>'w\<close> of the outside
  world (registries, cloud, file system, terminal) and returns its result and the new
  world. The three operations that receive the pointer to the environment take the
  object it points to and return, with their error, the object as they leave it. The
  validators, the manifest package (a manifest is a pure function of the application's
  name and type) and the template constant are parameters as well.
\<close>

record ('w, 'm) deps =
  validateProjectName :: "string \<Rightarrow> error option"
  validateApplicationName :: "string \<Rightarrow> error option"
  manifest_LoadBalancedWebApplication :: string
  manifest_Create :: "string \<Rightarrow> string \<Rightarrow> 'm \<times> error option"
  manifest_Marshal :: "'m \<Rightarrow> bytes \<times> error option"
  ws_Summary :: "'w \<Rightarrow> (archer_WorkspaceSummary \<times> error option) \<times> 'w"
  ws_Create :: "string \<Rightarrow> 'w \<Rightarrow> error option \<times> 'w"
  ws_WriteManifest :: "bytes \<Rightarrow> string \<Rightarrow> 'w \<Rightarrow> error option \<times> 'w"
  projStore_ListProjects :: "'w \<Rightarrow> (archer_Project list \<times> error option) \<times> 'w"
  projStore_CreateProject :: "archer_Project \<Rightarrow> 'w \<Rightarrow> error option \<times> 'w"
  envStore_ListEnvironments :: "string \<Rightarrow> 'w \<Rightarrow> (archer_Environment list \<times> error option) \<times> 'w"
  envStore_CreateEnvironment ::
    "archer_Environment \<Rightarrow> 'w \<Rightarrow> (error option \<times> archer_Environment) \<times> 'w"
  envDeployer_DeployEnvironment ::
    "archer_Environment \<Rightarrow> 'w \<Rightarrow> (error option \<times> archer_Environment) \<times> 'w"
  envDeployer_WaitForEnvironmentCreation ::
    "archer_Environment \<Rightarrow> 'w \<Rightarrow> (error option \<times> archer_Environment) \<times> 'w"
  prompter_Get :: "string \<Rightarrow> string \<Rightarrow> (string \<Rightarrow> error option) \<Rightarrow> 'w \<Rightarrow> (string \<times> error option) \<times> 'w"
  prompter_SelectOne :: "string \<Rightarrow> string \<Rightarrow> string list \<Rightarrow> 'w \<Rightarrow> (string \<times> error option) \<times> 'w"
  prompter_Confirm :: "string \<Rightarrow> string \<Rightarrow> 'w \<Rightarrow> (bool \<times> error option) \<times> 'w"
  prog_Start :: "string \<Rightarrow> 'w \<Rightarrow> 'w"
  prog_Stop :: "string \<Rightarrow> 'w \<Rightarrow> 'w"

text \<open>The state of a run: the outside world and the calls made so far, oldest first.\<close>

record 'w sys =
  world :: 'w
  trace :: "event list"

definition start :: "'w \<Rightarrow> 'w sys" where
  "start w = \<lparr>world = w, trace = []\<rparr>"

definition call :: "('w \<Rightarrow> 'r \<times> 'w) \<Rightarrow> ('r \<Rightarrow> event) \<Rightarrow> 'w sys \<Rightarrow> 'r \<times> 'w sys" where
  "call f ev s =
     (case f (world s) of (r, w') \<Rightarrow> (r, \<lparr>world = w', trace = trace s @ [ev r]\<rparr>))"

definition call_void :: "('w \<Rightarrow> 'w) \<Rightarrow> event \<Rightarrow> 'w sys \<Rightarrow> 'w sys" where
  "call_void f ev s = \<lparr>world = f (world s), trace = trace s @ [ev]\<rparr>"

definition fmt_Printf :: "string \<Rightarrow> 'w sys \<Rightarrow> 'w sys" where
  "fmt_Printf out s = s\<lparr>trace := trace s @ [Call_fmt_Printf out]\<rparr>"

section \<open>The command\<close>

subsection \<open>Ask\<close>

definition projectQuestion ::
  "('w, 'm) deps \<Rightarrow> InitAppOpts \<Rightarrow> 'w sys \<Rightarrow> error option \<times> InitAppOpts \<times> 'w sys" where
  "projectQuestion D opts s =
     (if length (existingProjects opts) > 0 then
        (case call (prompter_SelectOne D
                      ''Which project should we use?''
                      ''Choose a project to create a new application in. Applications in the same project share the same VPC, ECS Cluster and are discoverable via service discovery''
                      (existingProjects opts))
                   (Call_prompter_SelectOne
                      ''Which project should we use?''
                      ''Choose a project to create a new application in. Applications in the same project share the same VPC, ECS Cluster and are discoverable via service discovery''
                      (existingProjects opts)) s of
           ((projectName, err), s1) \<Rightarrow>
             (case err of
                Some e \<Rightarrow> (Some (Errorf_w ''failed to get project selection: '' e), opts, s1)
              | None \<Rightarrow> (None, opts\<lparr>Project := projectName\<rparr>, s1)))
      else
        (case call (prompter_Get D
                      (''What is your project'' @ [CHR 0x27] @ ''s name?'')
                      ''Applications under the same project share the same VPC and ECS Cluster and are discoverable via service discovery.''
                      (validateProjectName D))
                   (Call_prompter_Get
                      (''What is your project'' @ [CHR 0x27] @ ''s name?'')
                      ''Applications under the same project share the same VPC and ECS Cluster and are discoverable via service discovery.'') s of
           ((projectName, err), s1) \<Rightarrow>
             (case err of
                Some e \<Rightarrow> (Some (Errorf_w ''failed to get project name: '' e), opts, s1)
              | None \<Rightarrow> (None, opts\<lparr>Project := projectName\<rparr>, s1))))"

definition askAppName ::
  "('w, 'm) deps \<Rightarrow> InitAppOpts \<Rightarrow> 'w sys \<Rightarrow> error option \<times> InitAppOpts \<times> 'w sys" where
  "askAppName D opts s =
     (if AppName opts = [] then
        (case call (prompter_Get D
                      (''What is your application'' @ [CHR 0x27] @ ''s name?'')
                      ''Collection of AWS services to achieve a business capability. Must be unique within a project.''
                      (validateApplicationName D))
                   (Call_prompter_Get
                      (''What is your application'' @ [CHR 0x27] @ ''s name?'')
                      ''Collection of AWS services to achieve a business capability. Must be unique within a project.'') s of
           ((name, err), s1) \<Rightarrow>
             (case err of
                Some e \<Rightarrow> (Some (Errorf_w ''failed to get application name: '' e), opts, s1)
              | None \<Rightarrow> (None, opts\<lparr>AppName := name\<rparr>, s1)))
      else (None, opts, s))"

definition askAppType ::
  "('w, 'm) deps \<Rightarrow> InitAppOpts \<Rightarrow> 'w sys \<Rightarrow> error option \<times> InitAppOpts \<times> 'w sys" where
  "askAppType D opts s =
     (if AppType opts = [] then
        (case call (prompter_SelectOne D
                      ''Which template would you like to use?''
                      ''Pre-defined infrastructure templates.''
                      [manifest_LoadBalancedWebApplication D])
                   (Call_prompter_SelectOne
                      ''Which template would you like to use?''
                      ''Pre-defined infrastructure templates.''
                      [manifest_LoadBalancedWebApplication D]) s of
           ((t, err), s1) \<Rightarrow>
             (case err of
                Some e \<Rightarrow> (Some (Errorf_w ''failed to get template selection: '' e), opts, s1)
              | None \<Rightarrow> (None, opts\<lparr>AppType := t\<rparr>, s1)))
      else (None, opts, s))"

text \<open>\<open>Ask\<close>: the three questions in the order of the source, stopping at the first error.\<close>

definition Ask ::
  "('w, 'm) deps \<Rightarrow> InitAppOpts \<Rightarrow> 'w sys \<Rightarrow> error option \<times> InitAppOpts \<times> 'w sys" where
  "Ask D opts s =
     (case (if Project opts = [] then projectQuestion D opts s else (None, opts, s)) of
        (Some err, opts1, s1) \<Rightarrow> (Some err, opts1, s1)
      | (None, opts1, s1) \<Rightarrow>
          (case askAppName D opts1 s1 of
             (Some err, opts2, s2) \<Rightarrow> (Some err, opts2, s2)
           | (None, opts2, s2) \<Rightarrow> askAppType D opts2 s2))"

subsection \<open>Validate\<close>

definition Validate :: "('w, 'm) deps \<Rightarrow> InitAppOpts \<Rightarrow> error option" where
  "Validate D opts =
     (case validateProjectName D (Project opts) of
        Some err \<Rightarrow>
          (if err \<noteq> errValueEmpty then Some (Errorf_v ''project name invalid: '' err)
           else (case validateApplicationName D (AppName opts) of
                   Some err2 \<Rightarrow>
                     (if err2 \<noteq> errValueEmpty
                      then Some (Errorf_v ''application name invalid: '' err2) else None)
                 | None \<Rightarrow> None))
      | None \<Rightarrow>
          (case validateApplicationName D (AppName opts) of
             Some err2 \<Rightarrow>
               (if err2 \<noteq> errValueEmpty
                then Some (Errorf_v ''application name invalid: '' err2) else None)
           | None \<Rightarrow> None))"

subsection \<open>Prepare\<close>

text \<open>The loop of \<open>Prepare\<close> that appends each project's name to \<open>projectNames\<close>.\<close>

fun projectNames_loop :: "archer_Project list \<Rightarrow> string list \<Rightarrow> string list" where
  "projectNames_loop [] projectNames = projectNames"
| "projectNames_loop (p # ps) projectNames = projectNames_loop ps (projectNames @ [proj_Name p])"

definition Prepare :: "('w, 'm) deps \<Rightarrow> InitAppOpts \<Rightarrow> 'w sys \<Rightarrow> InitAppOpts \<times> 'w sys" where
  "Prepare D opts s =
     (if Project opts \<noteq> [] then (opts, s)
      else
        (case call (ws_Summary D) Call_ws_Summary s of
           ((summary, None), s1) \<Rightarrow> (opts\<lparr>Project := ProjectName summary\<rparr>, s1)
         | ((summary, Some err), s1) \<Rightarrow>
             (case call (projStore_ListProjects D) Call_projStore_ListProjects s1 of
                ((existingProjects', _), s2) \<Rightarrow>
                  (opts\<lparr>existingProjects := projectNames_loop existingProjects' []\<rparr>, s2))))"

subsection \<open>Execute\<close>

definition createProject :: "('w, 'm) deps \<Rightarrow> InitAppOpts \<Rightarrow> 'w sys \<Rightarrow> error option \<times> 'w sys" where
  "createProject D opts s =
     (case call (projStore_CreateProject D \<lparr>proj_Name = Project opts\<rparr>)
                (Call_projStore_CreateProject \<lparr>proj_Name = Project opts\<rparr>) s of
        (err, s1) \<Rightarrow>
          (if \<not> errors_As_ErrProjectAlreadyExists err then (err, s1) else (None, s1)))"

definition createApp :: "('w, 'm) deps \<Rightarrow> InitAppOpts \<Rightarrow> 'w sys \<Rightarrow> error option \<times> 'w sys" where
  "createApp D opts s =
     (case manifest_Create D (AppName opts) (AppType opts) of
        (manifest, Some err) \<Rightarrow> (Some (Errorf_w ''failed to generate a manifest '' err), s)
      | (manifest, None) \<Rightarrow>
          (case manifest_Marshal D manifest of
             (manifestBytes, Some err) \<Rightarrow>
               (Some (Errorf_w ''failed to marshal the manifest file '' err), s)
           | (manifestBytes, None) \<Rightarrow>
               call (ws_WriteManifest D manifestBytes (AppName opts))
                    (Call_ws_WriteManifest manifestBytes (AppName opts)) s))"

text \<open>
  \<open>env\<close> is the object behind the pointer of line 218: \<open>env1\<close> is that object after
  \<open>DeployEnvironment\<close> (it is what \<open>Printf\<close> and \<open>WaitForEnvironmentCreation\<close> read),
  \<open>env2\<close> after \<open>WaitForEnvironmentCreation\<close> (what \<open>CreateEnvironment\<close> reads).
\<close>

definition deployEnv :: "('w, 'm) deps \<Rightarrow> InitAppOpts \<Rightarrow> 'w sys \<Rightarrow> error option \<times> 'w sys" where
  "deployEnv D opts s =
     (if ShouldSkipDeploy opts then (None, s)
      else
        (case call (envStore_ListEnvironments D (Project opts))
                   (Call_envStore_ListEnvironments (Project opts)) s of
           ((existingEnvs, _), s1) \<Rightarrow>
             if length existingEnvs > 0 then (None, s1)
             else
               (case call (prompter_Confirm D
                             ''Would you like to set up a test environment?''
                             ''You can deploy your app into your test environment.'')
                          (Call_prompter_Confirm
                             ''Would you like to set up a test environment?''
                             ''You can deploy your app into your test environment.'') s1 of
                  ((deployEnv', err), s2) \<Rightarrow>
                    if \<not> deployEnv' then (None, s2)
                    else
                      (let env = \<lparr>env_Project = Project opts,
                                  env_Name = defaultEnvironmentName,
                                  env_PublicLoadBalancer = True\<rparr>;
                           s3 = call_void (prog_Start D ''Preparing deployment...'')
                                          (Call_prog_Start ''Preparing deployment...'') s2
                       in (case call (envDeployer_DeployEnvironment D env)
                                     (\<lambda>(err, env'). Call_envDeployer_DeployEnvironment env err env')
                                     s3 of
                             ((Some err, env1), s4) \<Rightarrow>
                               if errors_As_ErrStackAlreadyExists (Some err) then
                                 (None,
                                  fmt_Printf
                                    (''The environment '' @ env_Name env1
                                       @ '' already exists under project '' @ Project opts
                                       @ ''.'' @ [CHR 0x0A])
                                    (call_void (prog_Stop D ''Done!'') (Call_prog_Stop ''Done!'') s4))
                               else
                                 (Some err,
                                  call_void (prog_Stop D ''Error!'') (Call_prog_Stop ''Error!'') s4)
                           | ((None, env1), s4) \<Rightarrow>
                               (let s5 = call_void (prog_Stop D ''Done!'') (Call_prog_Stop ''Done!'') s4;
                                    s6 = call_void (prog_Start D ''Deploying env...'')
                                                   (Call_prog_Start ''Deploying env...'') s5
                                in (case call (envDeployer_WaitForEnvironmentCreation D env1)
                                              (\<lambda>(err, env').
                                                 Call_envDeployer_WaitForEnvironmentCreation env1 err env')
                                              s6 of
                                      ((Some err, env2), s7) \<Rightarrow>
                                        (Some err,
                                         call_void (prog_Stop D ''Error!'') (Call_prog_Stop ''Error!'') s7)
                                    | ((None, env2), s7) \<Rightarrow>
                                        (case call (envStore_CreateEnvironment D env2)
                                                   (\<lambda>(err, env').
                                                      Call_envStore_CreateEnvironment env2 err env')
                                                   s7 of
                                           ((Some err, env3), s8) \<Rightarrow>
                                             (Some err,
                                              call_void (prog_Stop D ''Error!'')
                                                        (Call_prog_Stop ''Error!'') s8)
                                         | ((None, env3), s8) \<Rightarrow>
                                             (None,
                                              call_void (prog_Stop D ''Done!'')
                                                        (Call_prog_Stop ''Done!'') s8)))))))))"

definition Execute :: "('w, 'm) deps \<Rightarrow> InitAppOpts \<Rightarrow> 'w sys \<Rightarrow> error option \<times> 'w sys" where
  "Execute D opts s =
     (case validateProjectName D (Project opts) of
        Some err \<Rightarrow> (Some err, s)
      | None \<Rightarrow>
          (case createProject D opts s of
             (Some err, s1) \<Rightarrow> (Some err, s1)
           | (None, s1) \<Rightarrow>
               (case call (ws_Create D (Project opts)) (Call_ws_Create (Project opts)) s1 of
                  (Some err, s2) \<Rightarrow> (Some err, s2)
                | (None, s2) \<Rightarrow>
                    (case createApp D opts s2 of
                       (Some err, s3) \<Rightarrow> (Some err, s3)
                     | (None, s3) \<Rightarrow> deployEnv D opts s3))))"

section \<open>Observing a run\<close>

text \<open>The three steps of a deployment among the recorded calls.\<close>

fun is_deploy_step :: "event \<Rightarrow> bool" where
  "is_deploy_step (Call_envDeployer_DeployEnvironment _ _ _) = True"
| "is_deploy_step (Call_envDeployer_WaitForEnvironmentCreation _ _ _) = True"
| "is_deploy_step (Call_envStore_CreateEnvironment _ _ _) = True"
| "is_deploy_step _ = False"

section \<open>Test doubles\<close>

text \<open>
  Collaborators with fixed answers and no state, in the manner of the mocks of a unit
  test: no workspace is bound, both registries are empty, every write succeeds, nothing
  writes to the environment it is handed, and the user declines the deployment. The theorems below are instantiated on variations of it.
\<close>

definition stub_validate :: "string \<Rightarrow> error option" where
  "stub_validate v =
     (if v = [] then Some errValueEmpty
      else if CHR '' '' \<in> set v then Some (ErrOther ''value has a bad format'')
      else None)"

definition stub :: "(unit, string) deps" where
  "stub =
     \<lparr>validateProjectName = stub_validate,
      validateApplicationName = stub_validate,
      manifest_LoadBalancedWebApplication = ''Load Balanced Web App'',
      manifest_Create = (\<lambda>appName appType. (appName @ '':'' @ appType, None)),
      manifest_Marshal = (\<lambda>m. (m, None)),
      ws_Summary = (\<lambda>w. ((\<lparr>ProjectName = []\<rparr>, Some (ErrOther ''no workspace'')), w)),
      ws_Create = (\<lambda>_ w. (None, w)),
      ws_WriteManifest = (\<lambda>_ _ w. (None, w)),
      projStore_ListProjects = (\<lambda>w. (([], None), w)),
      projStore_CreateProject = (\<lambda>_ w. (None, w)),
      envStore_ListEnvironments = (\<lambda>_ w. (([], None), w)),
      envStore_CreateEnvironment = (\<lambda>env w. ((None, env), w)),
      envDeployer_DeployEnvironment = (\<lambda>env w. ((None, env), w)),
      envDeployer_WaitForEnvironmentCreation = (\<lambda>env w. ((None, env), w)),
      prompter_Get = (\<lambda>_ _ _ w. ((''api'', None), w)),
      prompter_SelectOne = (\<lambda>_ _ options w. ((hd (options @ [[]]), None), w)),
      prompter_Confirm = (\<lambda>_ _ w. ((False, None), w)),
      prog_Start = (\<lambda>_ w. w),
      prog_Stop = (\<lambda>_ w. w)\<rparr>"

definition acme :: InitAppOpts where
  "acme = \<lparr>Project = ''acme'', AppName = ''api'', AppType = ''Load Balanced Web App'',
           ShouldDeploy = False, ShouldSkipDeploy = False, existingProjects = []\<rparr>"

definition test_env :: archer_Environment where
  "test_env = \<lparr>env_Project = ''acme'', env_Name = ''test'', env_PublicLoadBalancer = True\<rparr>"

text \<open>The user accepts the deployment.\<close>

definition stub_accept :: "(unit, string) deps" where
  "stub_accept = stub\<lparr>prompter_Confirm := (\<lambda>_ _ w. ((True, None), w))\<rparr>"

text \<open>The three steps of the deployment failing in turn.\<close>

definition stub_stack_exists :: "(unit, string) deps" where
  "stub_stack_exists =
     stub_accept\<lparr>envDeployer_DeployEnvironment :=
                   (\<lambda>env w. ((Some (ErrStackAlreadyExists ''acme-test''), env), w))\<rparr>"

definition stub_deploy_fails :: "(unit, string) deps" where
  "stub_deploy_fails =
     stub_accept\<lparr>envDeployer_DeployEnvironment :=
                   (\<lambda>env w. ((Some (ErrOther ''access denied''), env), w))\<rparr>"

definition stub_wait_fails :: "(unit, string) deps" where
  "stub_wait_fails =
     stub_accept\<lparr>envDeployer_WaitForEnvironmentCreation :=
                   (\<lambda>env w. ((Some (ErrOther ''rollback complete''), env), w))\<rparr>"

definition stub_register_fails :: "(unit, string) deps" where
  "stub_register_fails =
     stub_accept\<lparr>envStore_CreateEnvironment :=
                   (\<lambda>env w. ((Some (ErrOther ''throttled''), env), w))\<rparr>"

text \<open>
  A deployer that writes to the environment it is handed: begin-deploy gives it the name
  of the stack it has created.
\<close>

definition stub_deployer_renames :: "(unit, string) deps" where
  "stub_deployer_renames =
     stub_accept\<lparr>envDeployer_DeployEnvironment :=
                   (\<lambda>env w. ((None, env\<lparr>env_Name := ''acme-test''\<rparr>), w))\<rparr>"

text \<open>The project already has an environment; the user would accept a deployment.\<close>

definition stub_has_env :: "(unit, string) deps" where
  "stub_has_env =
     stub_accept\<lparr>envStore_ListEnvironments := (\<lambda>_ w. (([test_env], None), w))\<rparr>"

text \<open>The project registry refusing to create the project.\<close>

definition stub_project_exists :: "(unit, string) deps" where
  "stub_project_exists =
     stub\<lparr>projStore_CreateProject :=
            (\<lambda>_ w. (Some (Errorf_w ''failed to create project: ''
                             (ErrProjectAlreadyExists ''acme'')), w))\<rparr>"

definition stub_project_denied :: "(unit, string) deps" where
  "stub_project_denied =
     stub\<lparr>projStore_CreateProject := (\<lambda>_ w. (Some (ErrOther ''access denied''), w))\<rparr>"

text \<open>
  A workspace bound to a project, a registry that knows two projects, and a project
  listing that fails.
\<close>

definition stub_bound :: "(unit, string) deps" where
  "stub_bound = stub\<lparr>ws_Summary := (\<lambda>w. ((\<lparr>ProjectName = ''acme''\<rparr>, None), w))\<rparr>"

definition stub_two_projects :: "(unit, string) deps" where
  "stub_two_projects =
     stub\<lparr>projStore_ListProjects :=
            (\<lambda>w. (([\<lparr>proj_Name = ''acme''\<rparr>, \<lparr>proj_Name = ''demo''\<rparr>], None), w))\<rparr>"

definition stub_listing_fails :: "(unit, string) deps" where
  "stub_listing_fails =
     stub\<lparr>projStore_ListProjects := (\<lambda>w. (([], Some (ErrOther ''throttled'')), w))\<rparr>"

text \<open>A confirmation prompt that returns an error together with the answer "yes".\<close>

definition stub_prompt_fails_yes :: "(unit, string) deps" where
  "stub_prompt_fails_yes =
     stub\<lparr>prompter_Confirm := (\<lambda>_ _ w. ((True, Some (ErrOther ''EOF'')), w))\<rparr>"

section \<open>Evaluation\<close>

lemmas run_defs =
  deployEnv_def createProject_def createApp_def Execute_def Prepare_def Ask_def
  projectQuestion_def askAppName_def askAppType_def Validate_def
  call_def call_void_def fmt_Printf_def start_def Let_def
  errors_As_ErrStackAlreadyExists_def errors_As_ErrProjectAlreadyExists_def
  defaultEnvironmentName_def

lemmas stub_defs =
  stub_def stub_validate_def acme_def test_env_def stub_accept_def stub_stack_exists_def
  stub_deploy_fails_def stub_wait_fails_def stub_register_fails_def stub_has_env_def
  stub_deployer_renames_def stub_project_exists_def stub_project_denied_def stub_bound_def
  stub_two_projects_def stub_listing_fails_def stub_prompt_fails_yes_def

section \<open>Creating the project\<close>

text \<open>
  C3. \<open>createProject\<close> calls the project registry's create once, for the project of the
  request. It returns success when the create succeeds and when the create fails with an
  error in which \<open>errors.As\<close> finds the project-already-exists error; any other error of
  the registry is returned unchanged.
\<close>

theorem createProject_absorbs_already_exists:
  assumes "projStore_CreateProject D \<lparr>proj_Name = Project opts\<rparr> (world s) = (r, w')"
  shows "fst (createProject D opts s) =
           (if r = None \<or> errors_As_ErrProjectAlreadyExists r then None else r)
         \<and> snd (createProject D opts s) =
             \<lparr>world = w',
              trace = trace s @ [Call_projStore_CreateProject \<lparr>proj_Name = Project opts\<rparr> r]\<rparr>"
  using assms by (auto simp: createProject_def call_def)

theorem createProject_absorbs_already_exists_witness:
  "fst (createProject stub acme (start ())) = None
   \<and> fst (createProject stub_project_exists acme (start ())) = None
   \<and> fst (createProject stub_project_denied acme (start ())) = Some (ErrOther ''access denied'')"
proof -
  have ok: "projStore_CreateProject stub \<lparr>proj_Name = Project acme\<rparr> (world (start ()))
              = (None, ())"
    by (simp add: stub_defs)
  have exists: "projStore_CreateProject stub_project_exists \<lparr>proj_Name = Project acme\<rparr>
                  (world (start ()))
                = (Some (Errorf_w ''failed to create project: ''
                           (ErrProjectAlreadyExists ''acme'')), ())"
    by (simp add: stub_defs)
  have denied: "projStore_CreateProject stub_project_denied \<lparr>proj_Name = Project acme\<rparr>
                  (world (start ()))
                = (Some (ErrOther ''access denied''), ())"
    by (simp add: stub_defs)
  show ?thesis
    using createProject_absorbs_already_exists [OF ok]
      createProject_absorbs_already_exists [OF exists]
      createProject_absorbs_already_exists [OF denied]
    by (simp add: errors_As_ErrProjectAlreadyExists_def)
qed

section \<open>Deploying the test environment\<close>

text \<open>
  C2. \<open>deployEnv\<close> returns success at once in two cases. With the skip-deploy flag set
  it returns success and leaves the world and the recorded calls as they were: not even
  the environment registry is listed. When the environment registry lists at least one
  environment for the project, it returns success and the listing is the only call it
  can have made (none at all when the skip-deploy flag is set too): neither the
  confirmation prompt nor the deployer is called, whatever the deploy-intent flags are.
\<close>

theorem deployEnv_short_circuits:
  "(ShouldSkipDeploy opts \<longrightarrow> deployEnv D opts s = (None, s))
   \<and> (\<forall>envs err w'.
        envStore_ListEnvironments D (Project opts) (world s) = ((envs, err), w')
          \<and> length envs > 0
        \<longrightarrow> fst (deployEnv D opts s) = None
         \<and> trace (snd (deployEnv D opts s)) =
             trace s @ (if ShouldSkipDeploy opts then []
                        else [Call_envStore_ListEnvironments (Project opts) (envs, err)]))"
  by (auto simp: deployEnv_def call_def)

theorem deployEnv_short_circuits_witness:
  "ShouldSkipDeploy (acme\<lparr>ShouldDeploy := True, ShouldSkipDeploy := True\<rparr>)
   \<and> deployEnv stub_accept (acme\<lparr>ShouldDeploy := True, ShouldSkipDeploy := True\<rparr>) (start ())
       = (None, start ())
   \<and> envStore_ListEnvironments stub_has_env (Project (acme\<lparr>ShouldDeploy := True\<rparr>))
        (world (start ())) = (([test_env], None), ())
   \<and> length [test_env] > 0
   \<and> fst (deployEnv stub_has_env (acme\<lparr>ShouldDeploy := True\<rparr>) (start ())) = None
   \<and> trace (snd (deployEnv stub_has_env (acme\<lparr>ShouldDeploy := True\<rparr>) (start ())))
       = [Call_envStore_ListEnvironments ''acme'' ([test_env], None)]"
  using deployEnv_short_circuits
          [of "acme\<lparr>ShouldDeploy := True, ShouldSkipDeploy := True\<rparr>" stub_accept "start ()"]
    deployEnv_short_circuits [of "acme\<lparr>ShouldDeploy := True\<rparr>" stub_has_env "start ()"]
  by (simp add: stub_defs start_def)

text \<open>
  C1, as the code has it. Once the user has accepted the deployment, the calls to the
  deployer and to the environment registry's create are, in this order, begin-deploy,
  wait-for-completion and registry create; the first of them that fails is the last one
  made. Begin-deploy receives the environment built from the request, and each later
  step receives that object as the step before it left it. A failure of
  wait-for-completion or of the registry create is returned as it is. A failure of
  begin-deploy is returned as it is unless \<open>errors.As\<close> finds the stack-already-exists
  error in it, and then \<open>deployEnv\<close> returns success. In particular, when
  wait-for-completion fails, its error is returned and no environment is registered.
\<close>

theorem deployEnv_step_order:
  assumes run: "deployEnv D opts (start w) = (res, s')"
      and accepted: "Call_prompter_Confirm message help (True, perr) \<in> set (trace s')"
  shows "((\<exists>e env1. filter is_deploy_step (trace s') =
                [Call_envDeployer_DeployEnvironment
                   \<lparr>env_Project = Project opts, env_Name = ''test'',
                    env_PublicLoadBalancer = True\<rparr> (Some e) env1]
              \<and> res = (if errors_As_ErrStackAlreadyExists (Some e) then None else Some e))
        \<or> (\<exists>e env1 env2. filter is_deploy_step (trace s') =
                [Call_envDeployer_DeployEnvironment
                   \<lparr>env_Project = Project opts, env_Name = ''test'',
                    env_PublicLoadBalancer = True\<rparr> None env1,
                 Call_envDeployer_WaitForEnvironmentCreation env1 (Some e) env2]
              \<and> res = Some e)
        \<or> (\<exists>r env1 env2 env3. filter is_deploy_step (trace s') =
                [Call_envDeployer_DeployEnvironment
                   \<lparr>env_Project = Project opts, env_Name = ''test'',
                    env_PublicLoadBalancer = True\<rparr> None env1,
                 Call_envDeployer_WaitForEnvironmentCreation env1 None env2,
                 Call_envStore_CreateEnvironment env2 r env3]
              \<and> res = r))
       \<and> (\<forall>env e env'.
             Call_envDeployer_WaitForEnvironmentCreation env (Some e) env' \<in> set (trace s')
             \<longrightarrow> res = Some e
              \<and> (\<forall>a r b. Call_envStore_CreateEnvironment a r b \<notin> set (trace s')))"
  using assms
  by (auto simp: run_defs split: prod.splits option.splits if_splits)

theorem deployEnv_step_order_witness:
  "Call_prompter_Confirm ''Would you like to set up a test environment?''
      ''You can deploy your app into your test environment.'' (True, None)
     \<in> set (trace (snd (deployEnv stub_wait_fails acme (start ()))))
   \<and> Call_envDeployer_WaitForEnvironmentCreation test_env (Some (ErrOther ''rollback complete''))
        test_env
     \<in> set (trace (snd (deployEnv stub_wait_fails acme (start ()))))
   \<and> fst (deployEnv stub_wait_fails acme (start ())) = Some (ErrOther ''rollback complete'')
   \<and> filter is_deploy_step (trace (snd (deployEnv stub_wait_fails acme (start ())))) =
       [Call_envDeployer_DeployEnvironment test_env None test_env,
        Call_envDeployer_WaitForEnvironmentCreation test_env
          (Some (ErrOther ''rollback complete'')) test_env]"
proof -
  have run: "deployEnv stub_wait_fails acme (start ()) =
               (fst (deployEnv stub_wait_fails acme (start ())),
                snd (deployEnv stub_wait_fails acme (start ())))"
    by simp
  have accepted:
    "Call_prompter_Confirm ''Would you like to set up a test environment?''
        ''You can deploy your app into your test environment.'' (True, None)
       \<in> set (trace (snd (deployEnv stub_wait_fails acme (start ()))))"
    by (simp add: run_defs stub_defs)
  show ?thesis
    using deployEnv_step_order [OF run accepted] accepted
    by (simp add: run_defs stub_defs)
qed

text \<open>
  The claim C1 as it was stated has every failing step return its error. It fails where
  begin-deploy fails with the stack-already-exists error: the call is made and fails, and
  \<open>deployEnv\<close> does not return that error.
\<close>

theorem deployEnv_step_error_counterexample:
  "Call_envDeployer_DeployEnvironment test_env (Some (ErrStackAlreadyExists ''acme-test''))
      test_env
     \<in> set (trace (snd (deployEnv stub_stack_exists acme (start ()))))
   \<and> fst (deployEnv stub_stack_exists acme (start ()))
       \<noteq> Some (ErrStackAlreadyExists ''acme-test'')"
  by (simp add: run_defs stub_defs)

text \<open>
  C4. When begin-deploy fails and \<open>errors.As\<close> finds the stack-already-exists error in
  the failure, \<open>deployEnv\<close> returns success, and in that run neither wait-for-completion
  nor the environment registry's create is called. Any other failure of begin-deploy is
  what \<open>deployEnv\<close> returns.
\<close>

theorem deployEnv_stack_already_exists:
  assumes run: "deployEnv D opts (start w) = (res, s')"
      and failed: "Call_envDeployer_DeployEnvironment env (Some e) env' \<in> set (trace s')"
  shows "(errors_As_ErrStackAlreadyExists (Some e) \<longrightarrow>
            res = None
            \<and> (\<forall>a r b. Call_envDeployer_WaitForEnvironmentCreation a r b \<notin> set (trace s')
                      \<and> Call_envStore_CreateEnvironment a r b \<notin> set (trace s')))
       \<and> (\<not> errors_As_ErrStackAlreadyExists (Some e) \<longrightarrow> res = Some e)"
  using assms
  by (auto simp: run_defs split: prod.splits option.splits if_splits)

theorem deployEnv_stack_already_exists_witness:
  "Call_envDeployer_DeployEnvironment test_env (Some (ErrStackAlreadyExists ''acme-test''))
      test_env
     \<in> set (trace (snd (deployEnv stub_stack_exists acme (start ()))))
   \<and> errors_As_ErrStackAlreadyExists (Some (ErrStackAlreadyExists ''acme-test''))
   \<and> fst (deployEnv stub_stack_exists acme (start ())) = None
   \<and> Call_envDeployer_WaitForEnvironmentCreation test_env None test_env
     \<notin> set (trace (snd (deployEnv stub_stack_exists acme (start ()))))
   \<and> Call_envStore_CreateEnvironment test_env None test_env
     \<notin> set (trace (snd (deployEnv stub_stack_exists acme (start ()))))
   \<and> Call_envDeployer_DeployEnvironment test_env (Some (ErrOther ''access denied'')) test_env
     \<in> set (trace (snd (deployEnv stub_deploy_fails acme (start ()))))
   \<and> \<not> errors_As_ErrStackAlreadyExists (Some (ErrOther ''access denied''))
   \<and> fst (deployEnv stub_deploy_fails acme (start ())) = Some (ErrOther ''access denied'')"
proof -
  have run1: "deployEnv stub_stack_exists acme (start ()) =
                (fst (deployEnv stub_stack_exists acme (start ())),
                 snd (deployEnv stub_stack_exists acme (start ())))"
    by simp
  have failed1:
    "Call_envDeployer_DeployEnvironment test_env (Some (ErrStackAlreadyExists ''acme-test''))
        test_env
       \<in> set (trace (snd (deployEnv stub_stack_exists acme (start ()))))"
    by (simp add: run_defs stub_defs)
  have run2: "deployEnv stub_deploy_fails acme (start ()) =
                (fst (deployEnv stub_deploy_fails acme (start ())),
                 snd (deployEnv stub_deploy_fails acme (start ())))"
    by simp
  have failed2:
    "Call_envDeployer_DeployEnvironment test_env (Some (ErrOther ''access denied'')) test_env
       \<in> set (trace (snd (deployEnv stub_deploy_fails acme (start ()))))"
    by (simp add: run_defs stub_defs)
  have exists: "errors_As_ErrStackAlreadyExists (Some (ErrStackAlreadyExists ''acme-test''))"
    by (simp add: errors_As_ErrStackAlreadyExists_def)
  have other: "\<not> errors_As_ErrStackAlreadyExists (Some (ErrOther ''access denied''))"
    by (simp add: errors_As_ErrStackAlreadyExists_def)
  show ?thesis
    using deployEnv_stack_already_exists [OF run1 failed1]
      deployEnv_stack_already_exists [OF run2 failed2] failed1 failed2 exists other
    by simp
qed

text \<open>
  C8, as the code has it. When the user accepts, \<open>deployEnv\<close> builds one environment,
  whose project is the project name of the request, whose name is the default \<open>test\<close>
  and whose public load balancer attribute is true, and begin-deploy is called with
  exactly this value. The later calls are handed the same object, not a copy:
  wait-for-completion receives it as begin-deploy left it, and the registry's create
  receives it as wait-for-completion left it. So all three calls receive the value as it
  was built whenever the deployer has not written to the object.
\<close>

theorem deployEnv_environment:
  assumes run: "deployEnv D opts (start w) = (res, s')"
  shows "(\<forall>message help perr.
            Call_prompter_Confirm message help (True, perr) \<in> set (trace s') \<longrightarrow>
            (\<exists>r env1. Call_envDeployer_DeployEnvironment
                    \<lparr>env_Project = Project opts, env_Name = ''test'',
                     env_PublicLoadBalancer = True\<rparr> r env1 \<in> set (trace s')))
       \<and> (\<forall>env r env1.
            Call_envDeployer_DeployEnvironment env r env1 \<in> set (trace s') \<longrightarrow>
            env = \<lparr>env_Project = Project opts, env_Name = ''test'',
                   env_PublicLoadBalancer = True\<rparr>)
       \<and> (\<forall>env1 r env2.
            Call_envDeployer_WaitForEnvironmentCreation env1 r env2 \<in> set (trace s') \<longrightarrow>
            Call_envDeployer_DeployEnvironment
              \<lparr>env_Project = Project opts, env_Name = ''test'',
               env_PublicLoadBalancer = True\<rparr> None env1 \<in> set (trace s'))
       \<and> (\<forall>env2 r env3.
            Call_envStore_CreateEnvironment env2 r env3 \<in> set (trace s') \<longrightarrow>
            (\<exists>env1. Call_envDeployer_WaitForEnvironmentCreation env1 None env2
                      \<in> set (trace s')))
       \<and> ((\<forall>a r b. Call_envDeployer_DeployEnvironment a r b \<in> set (trace s')
                     \<or> Call_envDeployer_WaitForEnvironmentCreation a r b \<in> set (trace s')
                   \<longrightarrow> b = a) \<longrightarrow>
          (\<forall>env r env'.
             Call_envDeployer_WaitForEnvironmentCreation env r env' \<in> set (trace s')
             \<or> Call_envStore_CreateEnvironment env r env' \<in> set (trace s') \<longrightarrow>
             env = \<lparr>env_Project = Project opts, env_Name = ''test'',
                    env_PublicLoadBalancer = True\<rparr>))"
    (is "?accepted \<and> ?built \<and> ?waited \<and> ?registered \<and> ?untouched")
proof -
  have accepted: ?accepted
    using run by (auto simp: run_defs split: prod.splits option.splits if_splits)
  have built: ?built
    using run by (auto simp: run_defs split: prod.splits option.splits if_splits)
  have waited: ?waited
    using run by (auto simp: run_defs split: prod.splits option.splits if_splits)
  have registered: ?registered
    using run by (auto simp: run_defs split: prod.splits option.splits if_splits)
  have untouched: ?untouched
    using waited registered by blast
  from accepted built waited registered untouched show ?thesis by blast
qed

theorem deployEnv_environment_witness:
  "Call_prompter_Confirm ''Would you like to set up a test environment?''
      ''You can deploy your app into your test environment.'' (True, None)
     \<in> set (trace (snd (deployEnv stub_accept acme (start ()))))
   \<and> filter is_deploy_step (trace (snd (deployEnv stub_accept acme (start ())))) =
       [Call_envDeployer_DeployEnvironment
          \<lparr>env_Project = ''acme'', env_Name = ''test'', env_PublicLoadBalancer = True\<rparr> None
          \<lparr>env_Project = ''acme'', env_Name = ''test'', env_PublicLoadBalancer = True\<rparr>,
        Call_envDeployer_WaitForEnvironmentCreation
          \<lparr>env_Project = ''acme'', env_Name = ''test'', env_PublicLoadBalancer = True\<rparr> None
          \<lparr>env_Project = ''acme'', env_Name = ''test'', env_PublicLoadBalancer = True\<rparr>,
        Call_envStore_CreateEnvironment
          \<lparr>env_Project = ''acme'', env_Name = ''test'', env_PublicLoadBalancer = True\<rparr> None
          \<lparr>env_Project = ''acme'', env_Name = ''test'', env_PublicLoadBalancer = True\<rparr>]
   \<and> filter is_deploy_step (trace (snd (deployEnv stub_deployer_renames acme (start ())))) =
       [Call_envDeployer_DeployEnvironment
          \<lparr>env_Project = ''acme'', env_Name = ''test'', env_PublicLoadBalancer = True\<rparr> None
          \<lparr>env_Project = ''acme'', env_Name = ''acme-test'', env_PublicLoadBalancer = True\<rparr>,
        Call_envDeployer_WaitForEnvironmentCreation
          \<lparr>env_Project = ''acme'', env_Name = ''acme-test'', env_PublicLoadBalancer = True\<rparr> None
          \<lparr>env_Project = ''acme'', env_Name = ''acme-test'', env_PublicLoadBalancer = True\<rparr>,
        Call_envStore_CreateEnvironment
          \<lparr>env_Project = ''acme'', env_Name = ''acme-test'', env_PublicLoadBalancer = True\<rparr> None
          \<lparr>env_Project = ''acme'', env_Name = ''acme-test'', env_PublicLoadBalancer = True\<rparr>]"
proof -
  have run: "deployEnv stub_accept acme (start ()) =
               (fst (deployEnv stub_accept acme (start ())),
                snd (deployEnv stub_accept acme (start ())))"
    by simp
  have run': "deployEnv stub_deployer_renames acme (start ()) =
               (fst (deployEnv stub_deployer_renames acme (start ())),
                snd (deployEnv stub_deployer_renames acme (start ())))"
    by simp
  show ?thesis
    using deployEnv_environment [OF run] deployEnv_environment [OF run']
    by (simp add: run_defs stub_defs)
qed

text \<open>
  The claim C8 as it was stated has all three calls receive the environment with the
  name \<open>test\<close>. It fails for a deployer whose begin-deploy writes to the object behind
  the pointer: wait-for-completion and the registry's create receive what it wrote.
\<close>

theorem deployEnv_environment_counterexample:
  "Call_envDeployer_WaitForEnvironmentCreation
     \<lparr>env_Project = ''acme'', env_Name = ''acme-test'', env_PublicLoadBalancer = True\<rparr> None
     \<lparr>env_Project = ''acme'', env_Name = ''acme-test'', env_PublicLoadBalancer = True\<rparr>
     \<in> set (trace (snd (deployEnv stub_deployer_renames acme (start ()))))
   \<and> Call_envStore_CreateEnvironment
     \<lparr>env_Project = ''acme'', env_Name = ''acme-test'', env_PublicLoadBalancer = True\<rparr> None
     \<lparr>env_Project = ''acme'', env_Name = ''acme-test'', env_PublicLoadBalancer = True\<rparr>
     \<in> set (trace (snd (deployEnv stub_deployer_renames acme (start ()))))
   \<and> env_Name \<lparr>env_Project = ''acme'', env_Name = ''acme-test'',
                env_PublicLoadBalancer = True\<rparr> \<noteq> ''test''"
  by (simp add: run_defs stub_defs)

section \<open>The error of the confirmation prompt\<close>

text \<open>
  \<open>deployEnv\<close> sets its answer to false (line 202), overwrites it with what the prompt
  returns, and never reads the prompt's error (lines 208 to 210). For a prompt that fails
  and returns false, the run ends as for a "no": success, and no step of the deployment.
\<close>

lemma deployEnv_prompt_error_declined:
  assumes run: "deployEnv D opts (start w) = (res, s')"
      and prompt_failed: "Call_prompter_Confirm message help (False, Some e) \<in> set (trace s')"
  shows "res = None \<and> filter is_deploy_step (trace s') = []"
  using assms
  by (auto simp: run_defs split: prod.splits option.splits if_splits)

text \<open>
  C6. The claim is that a prompt error counts as a "no". With a prompt that fails and
  returns true, the answer set before the prompt is lost and \<open>deployEnv\<close> goes on:
  begin-deploy, wait-for-completion and the registry's create are all called.
\<close>

theorem deployEnv_prompt_error_accepted:
  "Call_prompter_Confirm ''Would you like to set up a test environment?''
      ''You can deploy your app into your test environment.'' (True, Some (ErrOther ''EOF''))
     \<in> set (trace (snd (deployEnv stub_prompt_fails_yes acme (start ()))))
   \<and> filter is_deploy_step (trace (snd (deployEnv stub_prompt_fails_yes acme (start ())))) =
       [Call_envDeployer_DeployEnvironment test_env None test_env,
        Call_envDeployer_WaitForEnvironmentCreation test_env None test_env,
        Call_envStore_CreateEnvironment test_env None test_env]
   \<and> fst (deployEnv stub_prompt_fails_yes acme (start ())) = None"
  by (simp add: run_defs stub_defs)

section \<open>Preparing the request\<close>




text \<open>
  C10. \<open>Prepare\<close> writes nothing but the project and the staged list of existing
  projects: the application's name, its type and both deploy-intent flags are after
  \<open>Prepare\<close> what they were before.
\<close>

theorem Prepare_frame:
  "AppName (fst (Prepare D opts s)) = AppName opts
   \<and> AppType (fst (Prepare D opts s)) = AppType opts
   \<and> ShouldDeploy (fst (Prepare D opts s)) = ShouldDeploy opts
   \<and> ShouldSkipDeploy (fst (Prepare D opts s)) = ShouldSkipDeploy opts"
  by (simp add: Prepare_def call_def split: prod.splits option.splits)

theorem Prepare_frame_witness:
  "AppName (fst (Prepare stub_bound (acme\<lparr>Project := [], ShouldDeploy := True\<rparr>) (start ())))
     = ''api''
   \<and> AppType (fst (Prepare stub_bound (acme\<lparr>Project := [], ShouldDeploy := True\<rparr>) (start ())))
     = ''Load Balanced Web App''
   \<and> ShouldDeploy (fst (Prepare stub_bound (acme\<lparr>Project := [], ShouldDeploy := True\<rparr>) (start ())))
   \<and> \<not> ShouldSkipDeploy
         (fst (Prepare stub_bound (acme\<lparr>Project := [], ShouldDeploy := True\<rparr>) (start ())))
   \<and> Project (fst (Prepare stub_bound (acme\<lparr>Project := [], ShouldDeploy := True\<rparr>) (start ())))
     = ''acme''"
  using Prepare_frame [of stub_bound "acme\<lparr>Project := [], ShouldDeploy := True\<rparr>" "start ()"]
  by (simp add: run_defs stub_defs)

section \<open>Validating the names\<close>

text \<open>
  C7. \<open>Validate\<close> returns success exactly when each of the two names either passes its
  validator or fails it with the empty-value error itself. When the project name fails
  with any other error, the result is the "project name invalid" error made from it;
  when the project name is accepted in that sense and the application name fails with
  any other error, the result is the "application name invalid" error made from it. In
  particular, with validators that answer the empty name with the empty-value error, a
  request with both names empty is valid.
\<close>

theorem Validate_result:
  "(Validate D opts = None \<longleftrightarrow>
      validateProjectName D (Project opts) \<in> {None, Some errValueEmpty}
      \<and> validateApplicationName D (AppName opts) \<in> {None, Some errValueEmpty})
   \<and> (\<forall>e. validateProjectName D (Project opts) = Some e \<and> e \<noteq> errValueEmpty
        \<longrightarrow> Validate D opts = Some (Errorf_v ''project name invalid: '' e))
   \<and> (\<forall>e. validateProjectName D (Project opts) \<in> {None, Some errValueEmpty}
          \<and> validateApplicationName D (AppName opts) = Some e \<and> e \<noteq> errValueEmpty
        \<longrightarrow> Validate D opts = Some (Errorf_v ''application name invalid: '' e))
   \<and> (Project opts = [] \<and> AppName opts = []
        \<and> validateProjectName D [] = Some errValueEmpty
        \<and> validateApplicationName D [] = Some errValueEmpty
        \<longrightarrow> Validate D opts = None)"
  by (auto simp: Validate_def split: option.splits)

theorem Validate_result_witness:
  "validateProjectName stub [] = Some errValueEmpty
   \<and> validateApplicationName stub [] = Some errValueEmpty
   \<and> Validate stub (acme\<lparr>Project := [], AppName := []\<rparr>) = None
   \<and> Validate stub acme = None
   \<and> validateProjectName stub ''my project'' = Some (ErrOther ''value has a bad format'')
   \<and> Validate stub (acme\<lparr>Project := ''my project''\<rparr>)
       = Some (Errorf_v ''project name invalid: '' (ErrOther ''value has a bad format''))
   \<and> validateProjectName stub [] \<in> {None, Some errValueEmpty}
   \<and> validateApplicationName stub ''my api'' = Some (ErrOther ''value has a bad format'')
   \<and> Validate stub (acme\<lparr>Project := [], AppName := ''my api''\<rparr>)
       = Some (Errorf_v ''application name invalid: '' (ErrOther ''value has a bad format''))"
  using Validate_result [of stub "acme\<lparr>Project := [], AppName := []\<rparr>"]
    Validate_result [of stub acme]
    Validate_result [of stub "acme\<lparr>Project := ''my project''\<rparr>"]
    Validate_result [of stub "acme\<lparr>Project := [], AppName := ''my api''\<rparr>"]
  by (simp add: stub_defs)

section \<open>The force-deploy flag\<close>

lemma Prepare_ShouldDeploy:
  "Prepare D (opts\<lparr>ShouldDeploy := b\<rparr>) s =
     (case Prepare D opts s of (opts', s') \<Rightarrow> (opts'\<lparr>ShouldDeploy := b\<rparr>, s'))"
  by (simp add: Prepare_def split: prod.splits option.splits)

lemma projectQuestion_ShouldDeploy:
  "projectQuestion D (opts\<lparr>ShouldDeploy := b\<rparr>) s =
     (case projectQuestion D opts s of (err, opts', s') \<Rightarrow> (err, opts'\<lparr>ShouldDeploy := b\<rparr>, s'))"
  by (simp add: projectQuestion_def split: prod.splits option.splits)

lemma askAppName_ShouldDeploy:
  "askAppName D (opts\<lparr>ShouldDeploy := b\<rparr>) s =
     (case askAppName D opts s of (err, opts', s') \<Rightarrow> (err, opts'\<lparr>ShouldDeploy := b\<rparr>, s'))"
  by (simp add: askAppName_def split: prod.splits option.splits)

lemma askAppType_ShouldDeploy:
  "askAppType D (opts\<lparr>ShouldDeploy := b\<rparr>) s =
     (case askAppType D opts s of (err, opts', s') \<Rightarrow> (err, opts'\<lparr>ShouldDeploy := b\<rparr>, s'))"
  by (simp add: askAppType_def split: prod.splits option.splits)

lemma Ask_ShouldDeploy:
  "Ask D (opts\<lparr>ShouldDeploy := b\<rparr>) s =
     (case Ask D opts s of (err, opts', s') \<Rightarrow> (err, opts'\<lparr>ShouldDeploy := b\<rparr>, s'))"
  by (simp add: Ask_def projectQuestion_ShouldDeploy askAppName_ShouldDeploy
        askAppType_ShouldDeploy split: prod.splits option.splits)

lemma deployEnv_ShouldDeploy: "deployEnv D (opts\<lparr>ShouldDeploy := b\<rparr>) s = deployEnv D opts s"
  by (simp add: deployEnv_def cong: option.case_cong prod.case_cong if_cong)

lemma Execute_ShouldDeploy: "Execute D (opts\<lparr>ShouldDeploy := b\<rparr>) s = Execute D opts s"
  by (simp add: Execute_def createProject_def createApp_def deployEnv_ShouldDeploy
        cong: option.case_cong prod.case_cong if_cong)

lemma Validate_ShouldDeploy: "Validate D (opts\<lparr>ShouldDeploy := b\<rparr>) = Validate D opts"
  by (simp add: Validate_def cong: option.case_cong if_cong)

lemma deployEnv_still_asks:
  assumes "\<not> ShouldSkipDeploy opts"
      and "fst (fst (envStore_ListEnvironments D (Project opts) w)) = []"
  shows "\<exists>r. Call_prompter_Confirm ''Would you like to set up a test environment?''
          ''You can deploy your app into your test environment.'' r
        \<in> set (trace (snd (deployEnv D opts (start w))))"
  using assms
  by (auto simp: run_defs split: prod.splits option.splits if_splits)


text \<open>
  C9. The force-deploy flag is never read. Setting \<open>ShouldDeploy\<close> to any value changes
  nothing in what \<open>Prepare\<close>, \<open>Ask\<close>, \<open>Validate\<close>, \<open>Execute\<close> and \<open>deployEnv\<close> return,
  in the calls they make and in the state they leave the world in; the request that
  \<open>Prepare\<close> and \<open>Ask\<close> hand back differs in that flag alone. So with force-deploy set
  (and skip-deploy not set, and no environment listed for the project) the user is
  still asked the confirmation question.
\<close>

theorem ShouldDeploy_never_read:
  "Prepare D (opts\<lparr>ShouldDeploy := b\<rparr>) s =
     (case Prepare D opts s of (opts', s') \<Rightarrow> (opts'\<lparr>ShouldDeploy := b\<rparr>, s'))
   \<and> Ask D (opts\<lparr>ShouldDeploy := b\<rparr>) s =
     (case Ask D opts s of (err, opts', s') \<Rightarrow> (err, opts'\<lparr>ShouldDeploy := b\<rparr>, s'))
   \<and> Validate D (opts\<lparr>ShouldDeploy := b\<rparr>) = Validate D opts
   \<and> Execute D (opts\<lparr>ShouldDeploy := b\<rparr>) s = Execute D opts s
   \<and> deployEnv D (opts\<lparr>ShouldDeploy := b\<rparr>) s = deployEnv D opts s
   \<and> (ShouldDeploy opts \<and> \<not> ShouldSkipDeploy opts
        \<and> fst (fst (envStore_ListEnvironments D (Project opts) w)) = []
      \<longrightarrow> (\<exists>r. Call_prompter_Confirm ''Would you like to set up a test environment?''
                 ''You can deploy your app into your test environment.'' r
               \<in> set (trace (snd (deployEnv D opts (start w))))))"
proof -
  have asked:
    "ShouldDeploy opts \<and> \<not> ShouldSkipDeploy opts
       \<and> fst (fst (envStore_ListEnvironments D (Project opts) w)) = []
     \<longrightarrow> (\<exists>r. Call_prompter_Confirm ''Would you like to set up a test environment?''
                ''You can deploy your app into your test environment.'' r
              \<in> set (trace (snd (deployEnv D opts (start w)))))"
    using deployEnv_still_asks [where D = D and opts = opts and w = w] by blast
  show ?thesis
    using asked
    by (simp only: Prepare_ShouldDeploy Ask_ShouldDeploy Validate_ShouldDeploy
          Execute_ShouldDeploy deployEnv_ShouldDeploy simp_thms)
qed

theorem ShouldDeploy_never_read_witness:
  "ShouldDeploy (acme\<lparr>ShouldDeploy := True\<rparr>)
   \<and> \<not> ShouldSkipDeploy (acme\<lparr>ShouldDeploy := True\<rparr>)
   \<and> fst (fst (envStore_ListEnvironments stub (Project (acme\<lparr>ShouldDeploy := True\<rparr>)) ())) = []
   \<and> Execute stub (acme\<lparr>ShouldDeploy := True\<rparr>) (start ()) = Execute stub acme (start ())
   \<and> Call_prompter_Confirm ''Would you like to set up a test environment?''
        ''You can deploy your app into your test environment.'' (False, None)
      \<in> set (trace (snd (deployEnv stub (acme\<lparr>ShouldDeploy := True\<rparr>) (start ()))))"
  using ShouldDeploy_never_read
          [where D = stub and opts = "acme\<lparr>ShouldDeploy := True\<rparr>" and b = False
             and s = "start ()" and w = "()"]
  by (simp add: run_defs stub_defs)

end
